theory Spec2Isabelle
  imports Complex_Main
begin

section \<open>Numbers\<close>

text \<open>
  The analytics functions of the dashboard (\<^verbatim>\<open>src/api/stats.js\<close> and the correlation
  module) compute on JavaScript numbers. They are embedded here over the real numbers:
  every arithmetic operation is the exact one. Rounding error, overflow to an infinity and
  NaN of the IEEE doubles are therefore outside this development. On the integer cent
  prices of the data model the sums and products below are exact in both readings; the
  quotients (the means, the slope) are not, and a value that is rounded after such a
  quotient can fall on the other side of a tie. What is stated of a rounded mean is
  therefore stated on a concrete input, or up to a tolerance that the double result keeps.
\<close>

type_synonym number = real

text \<open>\<^verbatim>\<open>Math.round(x)\<close>: the nearest integer, a tie going up.\<close>

definition Math_round :: "number \<Rightarrow> number" where
  "Math_round x = of_int \<lfloor>x + 1 / 2\<rfloor>"

text \<open>\<^verbatim>\<open>xs.reduce((s, v) => s + v, 0)\<close>\<close>

definition reduce_sum :: "number list \<Rightarrow> number" where
  "reduce_sum xs = foldl (\<lambda>s v. s + v) 0 xs"

section \<open>Trades and momentum\<close>

text \<open>
  A trade record; only the two price fields are read by the functions embedded here.
  An absent (or null) field is \<open>None\<close>.
\<close>

record trade =
  yes_price :: "number option"
  price :: "number option"

text \<open>\<^verbatim>\<open>t.yes_price ?? t.price ?? 0\<close>\<close>

definition trade_price :: "trade \<Rightarrow> number" where
  "trade_price t =
     (case yes_price t of
        Some p \<Rightarrow> p
      | None \<Rightarrow> (case price t of Some q \<Rightarrow> q | None \<Rightarrow> 0))"

text \<open>
  The regression loop of \<^verbatim>\<open>computeMomentum\<close>:
  \<^verbatim>\<open>for (let i = 0; i < n; i++) { sumX += i; sumY += prices[i]; sumXY += i * prices[i]; sumX2 += i * i; }\<close>
  The state is the loop index and the four accumulators.
\<close>

function regression_loop ::
  "number list \<Rightarrow> nat \<Rightarrow> number \<times> number \<times> number \<times> number
     \<Rightarrow> number \<times> number \<times> number \<times> number" where
  "regression_loop prices i (sumX, sumY, sumXY, sumX2) =
     (if i < length prices
      then regression_loop prices (Suc i)
             (sumX + real i, sumY + prices ! i, sumXY + real i * prices ! i,
              sumX2 + real i * real i)
      else (sumX, sumY, sumXY, sumX2))"
  by pat_completeness auto
termination
  by (relation "measure (\<lambda>(prices, i, acc). length prices - i)") auto

declare regression_loop.simps [simp del]

text \<open>The denominator of the slope, \<^verbatim>\<open>n * sumX2 - sumX * sumX\<close>, as the loop leaves it.\<close>

definition slope_denominator :: "number list \<Rightarrow> number" where
  "slope_denominator prices =
     (case regression_loop prices 0 (0, 0, 0, 0) of
        (sumX, sumY, sumXY, sumX2) \<Rightarrow> real (length prices) * sumX2 - sumX * sumX)"

text \<open>Its numerator, \<^verbatim>\<open>n * sumXY - sumX * sumY\<close>.\<close>

definition slope_numerator :: "number list \<Rightarrow> number" where
  "slope_numerator prices =
     (case regression_loop prices 0 (0, 0, 0, 0) of
        (sumX, sumY, sumXY, sumX2) \<Rightarrow> real (length prices) * sumXY - sumX * sumY)"

definition slope :: "number list \<Rightarrow> number" where
  "slope prices = slope_numerator prices / slope_denominator prices"

record momentum =
  direction :: string
  magnitude :: number
  recentAvg :: number
  olderAvg :: number
  tradeCount :: nat
  velocity :: number

text \<open>
  \<^verbatim>\<open>computeMomentum(trades)\<close>; the argument is \<open>None\<close> when the caller passes null or
  undefined, and the result is \<open>None\<close> where the source returns null.
\<close>

definition computeMomentum :: "trade list option \<Rightarrow> momentum option" where
  "computeMomentum trades_arg =
     (case trades_arg of
        None \<Rightarrow> None
      | Some trades \<Rightarrow>
          if length trades < 4 then None
          else
            (let prices = map trade_price trades;
                 half = length prices div 2;
                 recentHalf = take half prices;
                 olderHalf = drop half prices;
                 rAvg = reduce_sum recentHalf / real (length recentHalf);
                 oAvg = reduce_sum olderHalf / real (length olderHalf);
                 mag = \<bar>rAvg - oAvg\<bar>;
                 dir = (if rAvg - oAvg > 1 then ''UP''
                        else if oAvg - rAvg > 1 then ''DOWN'' else ''FLAT'')
             in Some \<lparr>direction = dir,
                      magnitude = Math_round (mag * 10) / 10,
                      recentAvg = Math_round (rAvg * 10) / 10,
                      olderAvg = Math_round (oAvg * 10) / 10,
                      tradeCount = length trades,
                      velocity = Math_round (slope prices * 100) / 100\<rparr>))"

text \<open>A trade that carries only a \<^verbatim>\<open>yes_price\<close>.\<close>

definition priced :: "number \<Rightarrow> trade" where
  "priced p = \<lparr>yes_price = Some p, price = None\<rparr>"

text \<open>The mean of a list of prices, used to state what the two halves contribute.\<close>

definition mean :: "number list \<Rightarrow> number" where
  "mean xs = sum_list xs / real (length xs)"

section \<open>Order books and the spread\<close>

text \<open>
  An order book level is the pair \<^verbatim>\<open>[price, quantity]\<close>; a side of the book that the
  snapshot does not carry is \<open>None\<close> (\<^verbatim>\<open>orderbook.yes || []\<close> reads it as empty).
\<close>

type_synonym level = "number \<times> number"

record orderbook =
  yes :: "level list option"
  no :: "level list option"

record spread_stats =
  spread :: "number option"
  spreadPct :: "number option"
  bestBid :: "number option"
  bestAsk :: "number option"
  midpoint :: "number option"
  depth :: nat

definition side_levels :: "level list option \<Rightarrow> level list" where
  "side_levels side = (case side of None \<Rightarrow> [] | Some ls \<Rightarrow> ls)"

text \<open>\<^verbatim>\<open>bids.length > 0 ? bids[0][0] : null\<close>\<close>

definition top_price :: "level list \<Rightarrow> number option" where
  "top_price bids = (if length bids > 0 then Some (fst (bids ! 0)) else None)"

definition computeSpread :: "orderbook option \<Rightarrow> spread_stats option" where
  "computeSpread orderbook_arg =
     (case orderbook_arg of
        None \<Rightarrow> None
      | Some ob \<Rightarrow>
          (let yesBids = side_levels (yes ob);
               noBids = side_levels (no ob);
               bestYesBid = top_price yesBids;
               bestNoBid = top_price noBids;
               ask = (case bestNoBid of Some p \<Rightarrow> Some (100 - p) | None \<Rightarrow> None);
               bid = bestYesBid
           in case (bid, ask) of
                (Some b, Some a) \<Rightarrow>
                  (let spr = a - b;
                       mid = (b + a) / 2;
                       pct = (if mid > 0 then (spr / mid) * 100 else 0)
                   in Some \<lparr>spread = Some spr, spreadPct = Some pct, bestBid = Some b,
                            bestAsk = Some a, midpoint = Some mid,
                            depth = length yesBids + length noBids\<rparr>)
              | _ \<Rightarrow>
                  Some \<lparr>spread = None, spreadPct = None, bestBid = bid, bestAsk = ask,
                        midpoint = None, depth = length yesBids + length noBids\<rparr>))"

section \<open>Markets and arbitrage detection\<close>

text \<open>
  The fields of a market snapshot that the analytics read. \<^verbatim>\<open>last_price\<close> is in cents.
\<close>

record market =
  event_ticker :: "string option"
  title :: "string option"
  event_title :: "string option"
  last_price :: "number option"

record arbitrage =
  totalImpliedPct :: number
  overround :: number
  marketCount :: nat
  isMispriced :: bool

text \<open>\<^verbatim>\<open>m.last_price != null && m.last_price > 0\<close>\<close>

definition has_positive_price :: "market \<Rightarrow> bool" where
  "has_positive_price m = (case last_price m of None \<Rightarrow> False | Some p \<Rightarrow> p > 0)"

text \<open>\<^verbatim>\<open>m.last_price || 0\<close>: null and 0 are both falsy.\<close>

definition price_or_zero :: "market \<Rightarrow> number" where
  "price_or_zero m = (case last_price m of None \<Rightarrow> 0 | Some p \<Rightarrow> if p = 0 then 0 else p)"

definition detectArbitrage :: "market list option \<Rightarrow> arbitrage option" where
  "detectArbitrage eventMarkets_arg =
     (case eventMarkets_arg of
        None \<Rightarrow> None
      | Some eventMarkets \<Rightarrow>
          if length eventMarkets < 2 then None
          else
            (let marketsWithPrice = filter has_positive_price eventMarkets
             in if length marketsWithPrice < 2 then None
                else
                  (let total = foldl (\<lambda>sum m. sum + price_or_zero m) 0 marketsWithPrice;
                       over = total - 100
                   in Some \<lparr>totalImpliedPct = Math_round (total * 10) / 10,
                            overround = Math_round (over * 10) / 10,
                            marketCount = length marketsWithPrice,
                            isMispriced = (\<bar>over\<bar> > 15)\<rparr>)))"

section \<open>Divergence of two trade series\<close>

record divergence_stats =
  divergence :: number
  div_direction :: string
  targetDelta :: number
  candidateDelta :: number

text \<open>\<^verbatim>\<open>xs.slice(-3)\<close>: the last three elements, all of them when there are fewer.\<close>

definition slice_last3 :: "'a list \<Rightarrow> 'a list" where
  "slice_last3 xs = drop (length xs - 3) xs"

definition computeDivergence ::
  "trade list option \<Rightarrow> trade list option \<Rightarrow> divergence_stats option" where
  "computeDivergence target_arg candidate_arg =
     (case (target_arg, candidate_arg) of
        (Some targetTrades, Some candidateTrades) \<Rightarrow>
          if length targetTrades = 0 \<or> length candidateTrades = 0 then None
          else if length targetTrades < 3 \<or> length candidateTrades < 3 then None
          else
            (let tPrices = map trade_price targetTrades;
                 cPrices = map trade_price candidateTrades;
                 tRecent = reduce_sum (take 3 tPrices) / 3;
                 tOlder = reduce_sum (slice_last3 tPrices) / 3;
                 cRecent = reduce_sum (take 3 cPrices) / 3;
                 cOlder = reduce_sum (slice_last3 cPrices) / 3;
                 tDelta = tRecent - tOlder;
                 cDelta = cRecent - cOlder;
                 dv = \<bar>tDelta - cDelta\<bar>;
                 dir =
                   (if tDelta > 1 \<and> cDelta < - 1 then ''TARGET UP / MATCH DOWN''
                    else if tDelta < - 1 \<and> cDelta > 1 then ''TARGET DOWN / MATCH UP''
                    else if tDelta > 1 \<and> cDelta > 1 \<and> \<bar>tDelta - cDelta\<bar> > 3
                      then ''BOTH UP (DIVERGING)''
                    else if tDelta < - 1 \<and> cDelta < - 1 \<and> \<bar>tDelta - cDelta\<bar> > 3
                      then ''BOTH DOWN (DIVERGING)''
                    else ''NEUTRAL'')
             in Some \<lparr>divergence = Math_round (dv * 10) / 10,
                      div_direction = dir,
                      targetDelta = Math_round (tDelta * 10) / 10,
                      candidateDelta = Math_round (cDelta * 10) / 10\<rparr>)
      | _ \<Rightarrow> None)"

text \<open>A trade with neither price field.\<close>

definition unpriced :: trade where
  "unpriced = \<lparr>yes_price = None, price = None\<rparr>"

text \<open>A market snapshot of which only the last price (if any) is known.\<close>

definition market_at :: "number option \<Rightarrow> market" where
  "market_at p = \<lparr>event_ticker = None, title = None, event_title = None, last_price = p\<rparr>"

text \<open>The known prices of an event's markets that are positive, in the order of the markets.\<close>

definition positive_prices :: "market list \<Rightarrow> number list" where
  "positive_prices ms = filter (\<lambda>p. p > 0) (List.map_filter last_price ms)"

section \<open>Pearson correlation and normalisation\<close>

text \<open>
  The accumulation loop of \<^verbatim>\<open>pearsonCorrelation\<close>:
  \<^verbatim>\<open>for (let i = 0; i < n; i++) { const da = a[i] - meanA; const db = b[i] - meanB;
    num += da * db; denomA += da * da; denomB += db * db; }\<close>
\<close>

function pearson_loop ::
  "number list \<Rightarrow> number list \<Rightarrow> number \<Rightarrow> number \<Rightarrow> nat \<Rightarrow> nat
     \<Rightarrow> number \<times> number \<times> number \<Rightarrow> number \<times> number \<times> number" where
  "pearson_loop a b meanA meanB n i (num, denomA, denomB) =
     (if i < n
      then (let da = a ! i - meanA; db = b ! i - meanB
            in pearson_loop a b meanA meanB n (Suc i)
                 (num + da * db, denomA + da * da, denomB + db * db))
      else (num, denomA, denomB))"
  by pat_completeness auto
termination
  by (relation "measure (\<lambda>(a, b, meanA, meanB, n, i, acc). n - i)") auto

declare pearson_loop.simps [simp del]

text \<open>The result is \<open>None\<close> where the source returns null.\<close>

definition pearsonCorrelation :: "number list \<Rightarrow> number list \<Rightarrow> number option" where
  "pearsonCorrelation seriesA seriesB =
     (let n = min (length seriesA) (length seriesB)
      in if n < 10 then None
         else
           (let a = take n seriesA;
                b = take n seriesB;
                meanA = reduce_sum a / real n;
                meanB = reduce_sum b / real n
            in case pearson_loop a b meanA meanB n 0 (0, 0, 0) of
                 (num, denomA, denomB) \<Rightarrow>
                   (let denom = sqrt (denomA * denomB)
                    in if denom = 0 then Some 0 else Some (num / denom))))"

text \<open>
  \<^verbatim>\<open>normalizeSeries\<close>; \<^verbatim>\<open>Math.min(...prices)\<close> and \<^verbatim>\<open>Math.max(...prices)\<close> of a
  non-empty array are the least and the greatest element.
\<close>

fun normalizeSeries :: "number list \<Rightarrow> number list" where
  "normalizeSeries [] = []"
| "normalizeSeries (p # ps) =
     (let mn = fold min ps p;
          mx = fold max ps p;
          range = mx - mn
      in if range = 0 then map (\<lambda>_. 50) (p # ps)
         else map (\<lambda>q. ((q - mn) / range) * 100) (p # ps))"

text \<open>The population variance of a series, to state when a series has none.\<close>

definition variance :: "number list \<Rightarrow> number" where
  "variance xs = (\<Sum>x\<leftarrow>xs. (x - mean xs) * (x - mean xs)) / real (length xs)"

section \<open>Keywords and relatedness\<close>

text \<open>
  Titles are strings of characters with codes below 256. \<^verbatim>\<open>toLowerCase\<close> is written
  out for the letters A to Z; the other characters below 256 that it changes (the accented
  capitals) are outside \<^verbatim>\<open>[a-z0-9\s]\<close> before and after, so the replacement that
  follows turns them into a space either way.
\<close>

definition STOP_WORDS :: "string list" where
  "STOP_WORDS =
     [''the'', ''a'', ''an'', ''is'', ''are'', ''was'', ''were'', ''be'', ''been'', ''being'',
      ''will'', ''would'', ''could'', ''should'', ''may'', ''might'', ''shall'', ''can'',
      ''do'', ''does'', ''did'', ''have'', ''has'', ''had'', ''having'',
      ''in'', ''on'', ''at'', ''to'', ''for'', ''of'', ''with'', ''by'', ''from'', ''as'',
      ''and'', ''or'', ''not'', ''no'', ''yes'', ''but'', ''if'', ''than'', ''that'', ''this'',
      ''it'', ''its'', ''what'', ''which'', ''who'', ''whom'', ''how'', ''when'', ''where'',
      ''before'', ''after'', ''above'', ''below'', ''between'', ''over'', ''under'',
      ''more'', ''most'', ''other'', ''some'', ''any'', ''all'', ''each'', ''every'',
      ''about'', ''up'', ''out'', ''into'', ''through'', ''during'', ''against'',
      ''next'', ''new'', ''first'', ''last'', ''get'', ''become'', ''per'']"

definition char_code :: "char \<Rightarrow> nat" where
  "char_code c = of_char c"

definition toLowerCase :: "string \<Rightarrow> string" where
  "toLowerCase text =
     map (\<lambda>c. if 65 \<le> char_code c \<and> char_code c \<le> 90 then char_of (char_code c + 32) else c)
       text"

text \<open>The class \<^verbatim>\<open>[a-z0-9]\<close>.\<close>

definition is_lower_alnum :: "char \<Rightarrow> bool" where
  "is_lower_alnum c =
     ((97 \<le> char_code c \<and> char_code c \<le> 122) \<or> (48 \<le> char_code c \<and> char_code c \<le> 57))"

text \<open>The class \<^verbatim>\<open>\s\<close> below code 256: tab, line feed, vertical tab, form feed,
  carriage return, space and the no-break space.\<close>

definition is_whitespace :: "char \<Rightarrow> bool" where
  "is_whitespace c = (char_code c \<in> {9, 10, 11, 12, 13, 32, 160})"

text \<open>\<^verbatim>\<open>.replace(/[^a-z0-9\s]/g, ' ')\<close>\<close>

definition replace_noise :: "string \<Rightarrow> string" where
  "replace_noise text =
     map (\<lambda>c. if is_lower_alnum c \<or> is_whitespace c then c else CHR '' '') text"

text \<open>
  \<^verbatim>\<open>.split(/\s+/)\<close>: the pieces between maximal runs of whitespace; a leading or a
  trailing run leaves an empty piece, and the empty string splits into one empty piece.
\<close>

function split_whitespace :: "string \<Rightarrow> string list" where
  "split_whitespace text =
     (let piece = takeWhile (\<lambda>c. \<not> is_whitespace c) text;
          rest = dropWhile (\<lambda>c. \<not> is_whitespace c) text
      in if rest = [] then [piece]
         else piece # split_whitespace (dropWhile is_whitespace rest))"
  by pat_completeness auto
termination
proof (relation "measure length")
  show "wf (measure length)" by simp
next
  fix s :: string and piece rest
  assume rest: "rest = dropWhile (\<lambda>c. \<not> is_whitespace c) s" and ne: "rest \<noteq> []"
  from ne obtain c cs where cs: "rest = c # cs" by (cases rest) auto
  with rest have "is_whitespace c"
    by (metis hd_dropWhile list.sel(1) ne)
  then have "length (dropWhile is_whitespace rest) \<le> length cs"
    by (simp add: cs length_dropWhile_le)
  moreover have "length rest \<le> length s"
    by (simp add: rest length_dropWhile_le)
  ultimately show "(dropWhile is_whitespace rest, s) \<in> measure length"
    by (simp add: cs)
qed

declare split_whitespace.simps [simp del]

definition extractKeywords :: "string \<Rightarrow> string list" where
  "extractKeywords text =
     (if text = [] then []
      else filter (\<lambda>w. length w > 2 \<and> w \<notin> set STOP_WORDS)
             (split_whitespace (replace_noise (toLowerCase text))))"

text \<open>
  \<^verbatim>\<open>keywordSimilarity\<close>: the sets are lists without repetition, \<^verbatim>\<open>intersection\<close> counts
  the words of the first that the second has, and \<^verbatim>\<open>union\<close> is the size of the set of
  all words.
\<close>

definition keywordSimilarity :: "string list \<Rightarrow> string list \<Rightarrow> number" where
  "keywordSimilarity kwA kwB =
     (if kwA = [] \<or> kwB = [] then 0
      else
        (let setA = remdups kwA;
             setB = remdups kwB;
             intersection = length (filter (\<lambda>w. w \<in> set setB) setA);
             union = length (remdups (kwA @ kwB))
         in if union = 0 then 0 else real intersection / real union))"

text \<open>The decimal digits of a natural number.\<close>

function decimal :: "nat \<Rightarrow> string" where
  "decimal n =
     (if n < 10 then [char_of (48 + n)] else decimal (n div 10) @ [char_of (48 + n mod 10)])"
  by pat_completeness auto
termination
  by (relation "measure (\<lambda>n. n)") auto

declare decimal.simps [simp del]

text \<open>\<^verbatim>\<open>x.toFixed(0)\<close>: the nearest integer in decimal, a tie going away from zero.\<close>

definition toFixed0 :: "number \<Rightarrow> string" where
  "toFixed0 x =
     (if x < 0 then ''-'' @ decimal (nat \<lfloor>- x + 1 / 2\<rfloor>) else decimal (nat \<lfloor>x + 1 / 2\<rfloor>))"

text \<open>\<^verbatim>\<open>s || ''\<close> for an optional string.\<close>

definition or_empty :: "string option \<Rightarrow> string" where
  "or_empty s = (case s of None \<Rightarrow> [] | Some t \<Rightarrow> t)"

text \<open>The keywords of a market: those of \<^verbatim>\<open>(m.title || '') + ' ' + (m.event_title || '')\<close>.\<close>

definition market_keywords :: "market \<Rightarrow> string list" where
  "market_keywords m = extractKeywords (or_empty (title m) @ '' '' @ or_empty (event_title m))"

text \<open>
  \<^verbatim>\<open>target.event_ticker && target.event_ticker === candidate.event_ticker\<close>: the
  target's ticker is present, not the empty string, and the candidate's is the same string.
\<close>

definition same_event :: "market \<Rightarrow> market \<Rightarrow> bool" where
  "same_event target candidate =
     (case event_ticker target of
        None \<Rightarrow> False
      | Some t \<Rightarrow> t \<noteq> [] \<and> event_ticker candidate = Some t)"

record relatedness =
  score :: number
  reason :: string

definition computeRelatedness :: "market \<Rightarrow> market \<Rightarrow> relatedness" where
  "computeRelatedness target candidate =
     (let score0 = (if same_event target candidate then 0 + 8 / 10 else 0);
          reason0 = (if same_event target candidate then ''SAME EVENT'' else []);
          kwTarget = market_keywords target;
          kwCand = market_keywords candidate;
          kwSim = keywordSimilarity kwTarget kwCand;
          score1 = (if kwSim > 0 then score0 + kwSim * (6 / 10) else score0);
          reason1 = (if kwSim > 0 \<and> reason0 = []
                     then ''TOPIC '' @ toFixed0 (kwSim * 100) @ ''%'' else reason0);
          score2 = (case (last_price target, last_price candidate) of
                      (Some pTarget, Some pCand) \<Rightarrow>
                        (let priceDist = \<bar>pTarget - pCand\<bar> / 100
                         in score1 + (1 - priceDist) * (1 / 10))
                    | _ \<Rightarrow> score1)
      in \<lparr>score = score2, reason = reason1\<rparr>)"

text \<open>The data model's range of a last price: in cents, from 0 to 100, when it is known.\<close>

definition price_in_range :: "market \<Rightarrow> bool" where
  "price_in_range m = (case last_price m of None \<Rightarrow> True | Some p \<Rightarrow> 0 \<le> p \<and> p \<le> 100)"

text \<open>The data model's range of a trade price, and its integer cents.\<close>

definition in_cent_range :: "number \<Rightarrow> bool" where
  "in_cent_range p = (0 \<le> p \<and> p \<le> 100)"

definition cent_price :: "number \<Rightarrow> bool" where
  "cent_price p = (p \<in> \<int> \<and> 0 \<le> p \<and> p \<le> 100)"

text \<open>Two markets of one event whose titles share most of their keywords.\<close>

definition fed_march :: market where
  "fed_march = \<lparr>event_ticker = Some ''FED-26'', title = Some ''Will the Fed raise rates in March?'',
       event_title = Some ''Fed decision'', last_price = Some 40\<rparr>"

definition fed_june :: market where
  "fed_june = \<lparr>event_ticker = Some ''FED-26'', title = Some ''Will the Fed raise rates in June?'',
       event_title = Some ''Fed decision'', last_price = Some 60\<rparr>"

section \<open>Properties of the momentum analyser\<close>

lemma reduce_sum_sum_list: "reduce_sum xs = sum_list xs"
proof -
  have "foldl (\<lambda>s v. s + v) a xs = a + sum_list xs" for a :: real
    by (induction xs arbitrary: a) simp_all
  then show ?thesis by (simp add: reduce_sum_def)
qed

text \<open>
  C1. For the trades with prices 70, 68, 65, 60, 55, 50 (newest first) the direction is
  UP; the recent half 70, 68, 65 has mean 67.67 and the older half 60, 55, 50 has mean 55,
  so the magnitude is 12.7 after rounding, and not 9.3: no result with direction UP has a
  magnitude within 0.1 of 9.3.
\<close>

theorem computeMomentum_example_counterexample:
  "\<not> (\<exists>m. computeMomentum (Some (map priced [70, 68, 65, 60, 55, 50])) = Some m
         \<and> direction m = ''UP'' \<and> \<bar>magnitude m - 93 / 10\<bar> \<le> 1 / 10)"
proof -
  have "computeMomentum (Some (map priced [70, 68, 65, 60, 55, 50])) =
      Some \<lparr>direction = ''UP'', magnitude = 127 / 10, recentAvg = 677 / 10,
            olderAvg = 55, tradeCount = 6, velocity = - (411 / 100)\<rparr>"
    by code_simp
  then show ?thesis by simp
qed

lemma round_tenth_close: "\<bar>Math_round (y * 10) / 10 - y\<bar> \<le> 1 / 20"
proof -
  define k where "k = \<lfloor>y * 10 + 1 / 2\<rfloor>"
  have "of_int k \<le> y * 10 + 1 / 2" "y * 10 + 1 / 2 < of_int k + 1"
    unfolding k_def by linarith+
  then have "\<bar>of_int k / 10 - y\<bar> \<le> 1 / 20" by linarith
  then show ?thesis by (simp add: Math_round_def k_def)
qed

text \<open>
  C1, as the code has it. On that sequence \<^verbatim>\<open>computeMomentum\<close> returns direction UP,
  magnitude 12.7, recent mean 67.7 and older mean 55. In general, for at least four trades
  with prices between 0 and 100, the recent half is the first \<open>n div 2\<close> trades and the
  older half the rest: the returned \<^verbatim>\<open>recentAvg\<close> and \<^verbatim>\<open>olderAvg\<close> are within 0.1 of the
  means of these two halves, and the returned magnitude is within 0.1 of the absolute
  difference of the two means (each is that value rounded to one decimal, where a tie may
  go either way in the program's arithmetic).
\<close>

theorem computeMomentum_halves:
  "computeMomentum (Some (map priced [70, 68, 65, 60, 55, 50])) =
      Some \<lparr>direction = ''UP'', magnitude = 127 / 10, recentAvg = 677 / 10,
            olderAvg = 55, tradeCount = 6, velocity = - (411 / 100)\<rparr>
   \<and> (4 \<le> length trades \<and> (\<forall>t\<in>set trades. in_cent_range (trade_price t)) \<longrightarrow>
        (\<exists>m. computeMomentum (Some trades) = Some m
           \<and> tradeCount m = length trades
           \<and> \<bar>recentAvg m - mean (map trade_price (take (length trades div 2) trades))\<bar> < 1 / 10
           \<and> \<bar>olderAvg m - mean (map trade_price (drop (length trades div 2) trades))\<bar> < 1 / 10
           \<and> \<bar>magnitude m
                - \<bar>mean (map trade_price (take (length trades div 2) trades))
                    - mean (map trade_price (drop (length trades div 2) trades))\<bar>\<bar> < 1 / 10))"
proof
  show "computeMomentum (Some (map priced [70, 68, 65, 60, 55, 50])) =
      Some \<lparr>direction = ''UP'', magnitude = 127 / 10, recentAvg = 677 / 10,
            olderAvg = 55, tradeCount = 6, velocity = - (411 / 100)\<rparr>"
    by code_simp
next
  define r where "r = mean (map trade_price (take (length trades div 2) trades))"
  define od where "od = mean (map trade_price (drop (length trades div 2) trades))"
  have close: "\<bar>Math_round (y * 10) / 10 - y\<bar> < 1 / 10" for y
    using round_tenth_close [of y] by simp
  have "4 \<le> length trades \<longrightarrow>
        (\<exists>m. computeMomentum (Some trades) = Some m
           \<and> tradeCount m = length trades
           \<and> recentAvg m = Math_round (r * 10) / 10
           \<and> olderAvg m = Math_round (od * 10) / 10
           \<and> magnitude m = Math_round (\<bar>r - od\<bar> * 10) / 10)"
    by (simp add: computeMomentum_def Let_def mean_def reduce_sum_sum_list take_map drop_map
          r_def od_def)
  moreover have "\<bar>Math_round (r * 10) / 10 - r\<bar> < 1 / 10"
    and "\<bar>Math_round (od * 10) / 10 - od\<bar> < 1 / 10"
    and "\<bar>Math_round (\<bar>r - od\<bar> * 10) / 10 - \<bar>r - od\<bar>\<bar> < 1 / 10"
    by (rule close)+
  ultimately have "4 \<le> length trades \<longrightarrow>
        (\<exists>m. computeMomentum (Some trades) = Some m
           \<and> tradeCount m = length trades
           \<and> \<bar>recentAvg m - r\<bar> < 1 / 10
           \<and> \<bar>olderAvg m - od\<bar> < 1 / 10
           \<and> \<bar>magnitude m - \<bar>r - od\<bar>\<bar> < 1 / 10)"
    by metis
  then show "4 \<le> length trades \<and> (\<forall>t\<in>set trades. in_cent_range (trade_price t)) \<longrightarrow>
        (\<exists>m. computeMomentum (Some trades) = Some m
           \<and> tradeCount m = length trades
           \<and> \<bar>recentAvg m - mean (map trade_price (take (length trades div 2) trades))\<bar> < 1 / 10
           \<and> \<bar>olderAvg m - mean (map trade_price (drop (length trades div 2) trades))\<bar> < 1 / 10
           \<and> \<bar>magnitude m
                - \<bar>mean (map trade_price (take (length trades div 2) trades))
                    - mean (map trade_price (drop (length trades div 2) trades))\<bar>\<bar> < 1 / 10)"
    unfolding r_def od_def by blast
qed

theorem computeMomentum_halves_witness:
  "\<exists>m. computeMomentum (Some (map priced [10, 20, 30, 40, 50])) = Some m
       \<and> tradeCount m = 5
       \<and> \<bar>recentAvg m - 15\<bar> < 1 / 10 \<and> \<bar>olderAvg m - 40\<bar> < 1 / 10
       \<and> \<bar>magnitude m - 25\<bar> < 1 / 10"
proof -
  let ?T = "map priced [10, 20, 30, 40, 50]"
  have len: "4 \<le> length ?T" by simp
  have rng: "\<forall>t\<in>set ?T. in_cent_range (trade_price t)"
    by (simp add: in_cent_range_def trade_price_def priced_def)
  have l5: "length ?T = 5" by simp
  have r: "mean (map trade_price (take (length ?T div 2) ?T)) = 15"
    by code_simp
  have o: "mean (map trade_price (drop (length ?T div 2) ?T)) = 40"
    by code_simp
  from computeMomentum_halves [of ?T] len rng have
    "\<exists>m. computeMomentum (Some ?T) = Some m
       \<and> tradeCount m = length ?T
       \<and> \<bar>recentAvg m - mean (map trade_price (take (length ?T div 2) ?T))\<bar> < 1 / 10
       \<and> \<bar>olderAvg m - mean (map trade_price (drop (length ?T div 2) ?T))\<bar> < 1 / 10
       \<and> \<bar>magnitude m
            - \<bar>mean (map trade_price (take (length ?T div 2) ?T))
                - mean (map trade_price (drop (length ?T div 2) ?T))\<bar>\<bar> < 1 / 10"
    by blast
  then have
    "\<exists>m. computeMomentum (Some ?T) = Some m
       \<and> tradeCount m = length ?T
       \<and> \<bar>recentAvg m - 15\<bar> < 1 / 10 \<and> \<bar>olderAvg m - 40\<bar> < 1 / 10
       \<and> \<bar>magnitude m - \<bar>15 - 40\<bar>\<bar> < 1 / 10"
    unfolding r o .
  then show ?thesis unfolding l5 by simp
qed

subsection \<open>The regression denominator\<close>

lemma regression_loop_sums:
  "i \<le> length ps \<Longrightarrow>
   regression_loop ps i (sx, sy, sxy, sx2) =
     (sx + (\<Sum>k = i..<length ps. real k),
      sy + (\<Sum>k = i..<length ps. ps ! k),
      sxy + (\<Sum>k = i..<length ps. real k * ps ! k),
      sx2 + (\<Sum>k = i..<length ps. real k * real k))"
proof (induction ps i "(sx, sy, sxy, sx2)" arbitrary: sx sy sxy sx2 rule: regression_loop.induct)
  case (1 prices i sumX sumY sumXY sumX2)
  show ?case
  proof (cases "i < length prices")
    case True
    then have "Suc i \<le> length prices" by simp
    from "1.hyps" [OF True this] True show ?thesis
      by (subst regression_loop.simps) (simp add: sum.atLeast_Suc_lessThan add.assoc)
  next
    case False
    with "1.prems" have "i = length prices" by simp
    then show ?thesis
      by (subst regression_loop.simps) simp
  qed
qed

lemma sum_indices: "2 * (\<Sum>k = 0..<n. real k) = real n * (real n - 1)"
  by (induction n) (simp_all add: algebra_simps)

lemma sum_index_squares:
  "6 * (\<Sum>k = 0..<n. real k * real k) = real n * (real n - 1) * (2 * real n - 1)"
  by (induction n) (simp_all add: algebra_simps)

lemma slope_denominator_closed:
  "12 * slope_denominator ps =
     real (length ps) * real (length ps) * (real (length ps) - 1) * (real (length ps) + 1)"
proof -
  define n where "n = real (length ps)"
  define sx where "sx = (\<Sum>k = 0..<length ps. real k)"
  define sx2 where "sx2 = (\<Sum>k = 0..<length ps. real k * real k)"
  have a: "2 * sx = n * (n - 1)" unfolding sx_def n_def by (rule sum_indices)
  have b: "6 * sx2 = n * (n - 1) * (2 * n - 1)" unfolding sx2_def n_def by (rule sum_index_squares)
  have "slope_denominator ps = n * sx2 - sx * sx"
    by (simp add: slope_denominator_def regression_loop_sums n_def sx_def sx2_def)
  then have "12 * slope_denominator ps = 2 * n * (6 * sx2) - 3 * (2 * sx) * (2 * sx)"
    by (simp add: algebra_simps)
  also have "\<dots> = 2 * n * (n * (n - 1) * (2 * n - 1)) - 3 * (n * (n - 1)) * (n * (n - 1))"
    by (simp only: a b)
  also have "\<dots> = n * n * (n - 1) * (n + 1)"
    by (simp add: algebra_simps)
  finally show ?thesis by (simp add: n_def)
qed

lemma slope_denominator_pos:
  assumes "2 \<le> length ps"
  shows "0 < slope_denominator ps"
proof -
  define n where "n = real (length ps)"
  from assms have n: "2 \<le> n" by (simp add: n_def)
  then have "0 < n * n * (n - 1) * (n + 1)"
    by (intro mult_pos_pos) simp_all
  then have "0 < real (length ps) * real (length ps) * (real (length ps) - 1) * (real (length ps) + 1)"
    by (simp add: n_def)
  then show ?thesis by (simp add: slope_denominator_closed [symmetric])
qed

text \<open>
  C9. For every trade list of length at least 4, the denominator
  \<^verbatim>\<open>n * sumX2 - sumX * sumX\<close> that the loop leaves is strictly positive, so the slope is
  a quotient by a non-zero number: multiplied by the denominator it gives the numerator
  back, and \<^verbatim>\<open>computeMomentum\<close> returns a record whose velocity is that slope rounded
  to two decimals.
\<close>

theorem slope_denominator_positive:
  assumes "4 \<le> length trades"
  shows "0 < slope_denominator (map trade_price trades)
         \<and> slope (map trade_price trades) * slope_denominator (map trade_price trades)
              = slope_numerator (map trade_price trades)
         \<and> (\<exists>m. computeMomentum (Some trades) = Some m
                \<and> velocity m = Math_round (slope (map trade_price trades) * 100) / 100)"
proof -
  from assms have "2 \<le> length (map trade_price trades)" by simp
  then have pos: "0 < slope_denominator (map trade_price trades)"
    by (rule slope_denominator_pos)
  then have "slope (map trade_price trades) * slope_denominator (map trade_price trades)
              = slope_numerator (map trade_price trades)"
    by (simp add: slope_def)
  moreover from assms have "\<exists>m. computeMomentum (Some trades) = Some m
                \<and> velocity m = Math_round (slope (map trade_price trades) * 100) / 100"
    by (simp add: computeMomentum_def Let_def)
  ultimately show ?thesis using pos by simp
qed

theorem slope_denominator_positive_witness:
  "0 < slope_denominator (map trade_price (map priced [70, 68, 65, 60]))
   \<and> computeMomentum (Some (map priced [70, 68, 65, 60])) \<noteq> None"
proof -
  have len: "4 \<le> length (map priced [70, 68, 65, 60])" by simp
  from slope_denominator_positive [OF len] show ?thesis by auto
qed

subsection \<open>Trades without a price\<close>

text \<open>
  C10. A trade with neither \<^verbatim>\<open>yes_price\<close> nor \<^verbatim>\<open>price\<close> is not skipped: its price is
  0, the price list keeps its position, and \<^verbatim>\<open>computeMomentum\<close> and
  \<^verbatim>\<open>computeDivergence\<close> return on it what they return on a trade priced 0. In a series
  of trades at 90 one such trade moves the momentum from FLAT, magnitude 0, velocity 0 to
  DOWN, magnitude 45, velocity 27, and the divergence against an unchanged series from 0
  to 30.
\<close>

theorem unpriced_trade_counts_as_zero:
  "trade_price unpriced = 0
   \<and> length (map trade_price (xs @ unpriced # ys)) = length (xs @ unpriced # ys)
   \<and> computeMomentum (Some (xs @ unpriced # ys)) = computeMomentum (Some (xs @ priced 0 # ys))
   \<and> computeDivergence (Some (xs @ unpriced # ys)) c = computeDivergence (Some (xs @ priced 0 # ys)) c
   \<and> computeDivergence t (Some (xs @ unpriced # ys)) = computeDivergence t (Some (xs @ priced 0 # ys))
   \<and> computeMomentum (Some (map priced [90, 90, 90, 90])) =
        Some \<lparr>direction = ''FLAT'', magnitude = 0, recentAvg = 90, olderAvg = 90,
              tradeCount = 4, velocity = 0\<rparr>
   \<and> computeMomentum (Some (unpriced # map priced [90, 90, 90])) =
        Some \<lparr>direction = ''DOWN'', magnitude = 45, recentAvg = 45, olderAvg = 90,
              tradeCount = 4, velocity = 27\<rparr>
   \<and> computeDivergence (Some (map priced [90, 90, 90, 90])) (Some (map priced [90, 90, 90, 90])) =
        Some \<lparr>divergence = 0, div_direction = ''NEUTRAL'', targetDelta = 0, candidateDelta = 0\<rparr>
   \<and> computeDivergence (Some (unpriced # map priced [90, 90, 90])) (Some (map priced [90, 90, 90, 90])) =
        Some \<lparr>divergence = 30, div_direction = ''NEUTRAL'', targetDelta = - 30, candidateDelta = 0\<rparr>"
proof -
  have p0: "trade_price unpriced = 0" "trade_price (priced 0) = 0"
    by (simp_all add: trade_price_def unpriced_def priced_def)
  then have same: "map trade_price (xs @ unpriced # ys) = map trade_price (xs @ priced 0 # ys)"
    by simp
  have m: "computeMomentum (Some (xs @ unpriced # ys)) = computeMomentum (Some (xs @ priced 0 # ys))"
    by (simp add: computeMomentum_def p0)
  have d1: "computeDivergence (Some (xs @ unpriced # ys)) c = computeDivergence (Some (xs @ priced 0 # ys)) c"
    by (simp add: computeDivergence_def p0 split: option.splits)
  have d2: "computeDivergence t (Some (xs @ unpriced # ys)) = computeDivergence t (Some (xs @ priced 0 # ys))"
    by (simp add: computeDivergence_def p0 split: option.splits)
  have e1: "computeMomentum (Some (map priced [90, 90, 90, 90])) =
        Some \<lparr>direction = ''FLAT'', magnitude = 0, recentAvg = 90, olderAvg = 90,
              tradeCount = 4, velocity = 0\<rparr>"
    by code_simp
  have e2: "computeMomentum (Some (unpriced # map priced [90, 90, 90])) =
        Some \<lparr>direction = ''DOWN'', magnitude = 45, recentAvg = 45, olderAvg = 90,
              tradeCount = 4, velocity = 27\<rparr>"
    by code_simp
  have e3: "computeDivergence (Some (map priced [90, 90, 90, 90])) (Some (map priced [90, 90, 90, 90])) =
        Some \<lparr>divergence = 0, div_direction = ''NEUTRAL'', targetDelta = 0, candidateDelta = 0\<rparr>"
    by code_simp
  have e4: "computeDivergence (Some (unpriced # map priced [90, 90, 90])) (Some (map priced [90, 90, 90, 90])) =
        Some \<lparr>divergence = 30, div_direction = ''NEUTRAL'', targetDelta = - 30, candidateDelta = 0\<rparr>"
    by code_simp
  show ?thesis
    using p0(1) m d1 d2 e1 e2 e3 e4 by simp
qed

section \<open>Properties of the arbitrage detector\<close>

lemma length_positive_prices:
  "length (filter has_positive_price ms) = length (positive_prices ms)"
  by (induction ms) (auto simp: positive_prices_def has_positive_price_def List.map_filter_simps split: option.splits)

lemma foldl_price_or_zero:
  "foldl (\<lambda>sum m. sum + price_or_zero m) a (filter has_positive_price ms)
     = a + sum_list (positive_prices ms)"
  by (induction ms arbitrary: a) (auto simp: positive_prices_def has_positive_price_def price_or_zero_def List.map_filter_simps split: option.splits)

lemma few_priced_few_markets:
  "length ms < 2 \<Longrightarrow> length (positive_prices ms) < 2"
proof -
  have "length (filter has_positive_price ms) \<le> length ms" by simp
  then show "length ms < 2 \<Longrightarrow> length (positive_prices ms) < 2"
    by (simp add: length_positive_prices)
qed

text \<open>
  C2. \<^verbatim>\<open>detectArbitrage\<close> returns null when fewer than two markets of the event have a
  known positive last price. Otherwise the total is the sum of these prices, the overround
  is the total minus 100, both are returned rounded to one decimal, and the event is flagged
  exactly when the absolute overround exceeds 15. Prices summing to 100 give overround 0 and
  no flag; prices summing to 120 give overround 20 and the flag.
\<close>

theorem detectArbitrage_overround:
  "detectArbitrage None = None
   \<and> detectArbitrage (Some ms) =
      (if length (positive_prices ms) < 2 then None
       else Some \<lparr>totalImpliedPct = Math_round (sum_list (positive_prices ms) * 10) / 10,
                  overround = Math_round ((sum_list (positive_prices ms) - 100) * 10) / 10,
                  marketCount = length (positive_prices ms),
                  isMispriced = (\<bar>sum_list (positive_prices ms) - 100\<bar> > 15)\<rparr>)
   \<and> (2 \<le> length (positive_prices ms) \<and> sum_list (positive_prices ms) = 100 \<longrightarrow>
        (\<exists>r. detectArbitrage (Some ms) = Some r \<and> overround r = 0 \<and> \<not> isMispriced r))
   \<and> (2 \<le> length (positive_prices ms) \<and> sum_list (positive_prices ms) = 120 \<longrightarrow>
        (\<exists>r. detectArbitrage (Some ms) = Some r \<and> overround r = 20 \<and> isMispriced r))"
proof -
  have eq: "detectArbitrage (Some ms) =
      (if length (positive_prices ms) < 2 then None
       else Some \<lparr>totalImpliedPct = Math_round (sum_list (positive_prices ms) * 10) / 10,
                  overround = Math_round ((sum_list (positive_prices ms) - 100) * 10) / 10,
                  marketCount = length (positive_prices ms),
                  isMispriced = (\<bar>sum_list (positive_prices ms) - 100\<bar> > 15)\<rparr>)"
    using few_priced_few_markets [of ms]
    by (simp add: detectArbitrage_def Let_def foldl_price_or_zero length_positive_prices)
  have none: "detectArbitrage None = None"
    by (simp add: detectArbitrage_def)
  have r0: "Math_round 0 / 10 = 0" "Math_round 200 / 10 = 20"
    by (simp_all add: Math_round_def)
  show ?thesis
    using eq none r0 by simp
qed

theorem detectArbitrage_overround_witness:
  "detectArbitrage (Some [market_at (Some 60), market_at None, market_at (Some 40)]) =
     Some \<lparr>totalImpliedPct = 100, overround = 0, marketCount = 2, isMispriced = False\<rparr>
   \<and> detectArbitrage (Some [market_at (Some 70), market_at (Some 50), market_at (Some 0)]) =
     Some \<lparr>totalImpliedPct = 120, overround = 20, marketCount = 2, isMispriced = True\<rparr>
   \<and> detectArbitrage (Some [market_at (Some 55), market_at None]) = None"
proof -
  have a: "positive_prices [market_at (Some 60), market_at None, market_at (Some 40)] = [60, 40]"
    by (simp add: positive_prices_def market_at_def)
  have b: "positive_prices [market_at (Some 70), market_at (Some 50), market_at (Some 0)] = [70, 50]"
    by (simp add: positive_prices_def market_at_def)
  have c: "positive_prices [market_at (Some 55), market_at None] = [55]"
    by (simp add: positive_prices_def market_at_def)
  have r: "Math_round 1000 / 10 = 100" "Math_round 1200 / 10 = 120"
          "Math_round 0 / 10 = 0" "Math_round 200 / 10 = 20"
    by (simp_all add: Math_round_def)
  show ?thesis
    using detectArbitrage_overround [of "[market_at (Some 60), market_at None, market_at (Some 40)]"]
      detectArbitrage_overround [of "[market_at (Some 70), market_at (Some 50), market_at (Some 0)]"]
      detectArbitrage_overround [of "[market_at (Some 55), market_at None]"]
    by (simp add: a b c r)
qed

section \<open>Properties of the spread analyser\<close>

text \<open>
  C8. For the order book with the yes side \<^verbatim>\<open>[[45, 100]]\<close> and the no side
  \<^verbatim>\<open>[[40, 50]]\<close> the best bid is 45, the best ask 60, the spread 15, the midpoint 52.5
  and the relative spread 200/7, which is 28.57 to two decimals. Whenever the no side has a
  top level, the best ask is 100 minus its price.
\<close>

theorem computeSpread_example:
  "computeSpread (Some \<lparr>yes = Some [(45, 100)], no = Some [(40, 50)]\<rparr>) =
     Some \<lparr>spread = Some 15, spreadPct = Some (200 / 7), bestBid = Some 45,
           bestAsk = Some 60, midpoint = Some (105 / 2), depth = 2\<rparr>
   \<and> \<bar>200 / 7 - 2857 / 100\<bar> < (1 / 100 :: real)
   \<and> (\<exists>r. computeSpread (Some \<lparr>yes = ys, no = Some ((p, q) # rest)\<rparr>) = Some r
          \<and> bestAsk r = Some (100 - p))"
  by (auto simp: computeSpread_def side_levels_def top_price_def Let_def split: option.splits)

section \<open>Properties of the Pearson correlator\<close>

lemma pearson_loop_sums:
  "i \<le> n \<Longrightarrow>
   pearson_loop a b mA mB n i (x, y, z) =
     (x + (\<Sum>k = i..<n. (a ! k - mA) * (b ! k - mB)),
      y + (\<Sum>k = i..<n. (a ! k - mA) * (a ! k - mA)),
      z + (\<Sum>k = i..<n. (b ! k - mB) * (b ! k - mB)))"
proof (induction a b mA mB n i "(x, y, z)" arbitrary: x y z rule: pearson_loop.induct)
  case (1 a b meanA meanB n i num denomA denomB)
  show ?case
  proof (cases "i < n")
    case True
    then have "Suc i \<le> n" by simp
    from "1.hyps" [OF True refl refl this] True show ?thesis
      by (subst pearson_loop.simps) (simp add: Let_def sum.atLeast_Suc_lessThan add.assoc)
  next
    case False
    with "1.prems" have "i = n" by simp
    then show ?thesis
      by (subst pearson_loop.simps) simp
  qed
qed

lemma sum_over_indices:
  "(\<Sum>k = 0..<length xs. f (xs ! k)) = (\<Sum>x\<leftarrow>xs. f x)" for f :: "real \<Rightarrow> real"
proof -
  have "(\<Sum>x\<leftarrow>xs. f x) = (\<Sum>k = 0..<length (map f xs). map f xs ! k)"
    by (rule sum_list_sum_nth)
  also have "\<dots> = (\<Sum>k = 0..<length xs. f (xs ! k))"
    by (rule sum.cong) simp_all
  finally show ?thesis by simp
qed

text \<open>The sum of squared deviations from the mean: what the loop leaves in \<open>denomA\<close>.\<close>

lemma squared_deviations_zero_iff:
  "(\<Sum>x\<leftarrow>xs. (x - m) * (x - m)) = 0 \<longleftrightarrow> (\<forall>x\<in>set xs. x = m)" for m :: real
proof -
  have "(\<Sum>x\<leftarrow>xs. (x - m) * (x - m)) = 0 \<longleftrightarrow> (\<forall>v\<in>set (map (\<lambda>x. (x - m) * (x - m)) xs). v = 0)"
    by (rule sum_list_nonneg_eq_0_iff) auto
  then show ?thesis by auto
qed

lemma variance_zero_iff:
  assumes "xs \<noteq> []"
  shows "variance xs = 0 \<longleftrightarrow> (\<forall>x\<in>set xs. x = mean xs)"
  using assms by (simp add: variance_def squared_deviations_zero_iff)

lemma pearson_unfold:
  assumes "10 \<le> min (length A) (length B)"
  defines "n \<equiv> min (length A) (length B)"
  defines "a \<equiv> take n A" and "b \<equiv> take n B"
  defines "num \<equiv> (\<Sum>k = 0..<n. (a ! k - mean a) * (b ! k - mean b))"
  defines "dA \<equiv> (\<Sum>x\<leftarrow>a. (x - mean a) * (x - mean a))"
  defines "dB \<equiv> (\<Sum>x\<leftarrow>b. (x - mean b) * (x - mean b))"
  shows "pearsonCorrelation A B =
           (if sqrt (dA * dB) = 0 then Some 0 else Some (num / sqrt (dA * dB)))"
proof -
  have la: "length a = n" and lb: "length b = n"
    by (simp_all add: a_def b_def n_def)
  have ma: "reduce_sum a / real n = mean a" and mb: "reduce_sum b / real n = mean b"
    by (simp_all add: mean_def reduce_sum_sum_list la lb)
  have sa: "(\<Sum>k = 0..<n. (a ! k - mean a) * (a ! k - mean a)) = dA"
    using sum_over_indices [of "\<lambda>x. (x - mean a) * (x - mean a)" a] by (simp add: la dA_def)
  have sb: "(\<Sum>k = 0..<n. (b ! k - mean b) * (b ! k - mean b)) = dB"
    using sum_over_indices [of "\<lambda>x. (x - mean b) * (x - mean b)" b] by (simp add: lb dB_def)
  have loop: "pearson_loop a b (mean a) (mean b) n 0 (0, 0, 0) = (num, dA, dB)"
    by (simp add: pearson_loop_sums sa sb num_def)
  have "\<not> n < 10" using assms(1) unfolding n_def by linarith
  then show ?thesis
    unfolding pearsonCorrelation_def Let_def n_def [symmetric] a_def [symmetric] b_def [symmetric]
      ma mb loop
    by simp
qed

text \<open>
  C4. Below an overlap of 10 the correlator returns null, whatever the sequences hold. The
  branch \<^verbatim>\<open>denom === 0\<close> returns the number 0; the denominator is 0 when the deviations of
  one aligned series from its mean are all 0. For a constant series of integer cents the
  mean that the program computes is the constant itself, so the deviations are 0 and the
  branch is taken. For a constant series of a value such as 0.1 the mean computed in doubles
  is not that value, the deviations are not 0 and the branch is missed: the zero branch is
  stated here on integer cents only.
\<close>

lemma pearson_short_overlap:
  "min (length A) (length B) < 10 \<Longrightarrow> pearsonCorrelation A B = None"
  by (simp add: pearsonCorrelation_def Let_def)

lemma pearson_constant_cents:
  assumes "10 \<le> min (length C) (length D)"
    and "\<forall>c\<in>set (take (min (length C) (length D)) C). cent_price c"
    and "\<forall>d\<in>set (take (min (length C) (length D)) D). cent_price d"
    and "variance (take (min (length C) (length D)) C) = 0
         \<or> variance (take (min (length C) (length D)) D) = 0"
  shows "pearsonCorrelation C D = Some 0"
proof -
  define n where "n = min (length C) (length D)"
  define a where "a = take n C"
  define b where "b = take n D"
  have la: "length a = n" and lb: "length b = n"
    by (simp_all add: a_def b_def n_def)
  from assms(1) have n10: "10 \<le> n" by (simp add: n_def)
  from assms(4) have "variance a = 0 \<or> variance b = 0"
    by (simp add: a_def b_def n_def)
  then have "(\<Sum>x\<leftarrow>a. (x - mean a) * (x - mean a)) = 0 \<or> (\<Sum>x\<leftarrow>b. (x - mean b) * (x - mean b)) = 0"
    using n10 by (auto simp: variance_def la lb)
  then have "sqrt ((\<Sum>x\<leftarrow>a. (x - mean a) * (x - mean a)) * (\<Sum>x\<leftarrow>b. (x - mean b) * (x - mean b))) = 0"
    by auto
  with pearson_unfold [of C D] assms(1) show "pearsonCorrelation C D = Some 0"
    by (simp add: a_def b_def n_def)
qed

text \<open>
  C3. The correlation of a non-constant sequence with itself is not 1 for every length:
  the sequence 1, 2 is not constant, and the correlator returns null on it, so there is no
  returned number within \<open>10\<^sup>-\<^sup>9\<close> of 1.
\<close>

theorem pearson_self_counterexample:
  "\<not> (\<exists>r. pearsonCorrelation [1, 2] [1, 2] = Some r \<and> \<bar>r - 1\<bar> \<le> 1 / 10 ^ 9)"
  by (simp add: pearsonCorrelation_def)

text \<open>
  C3, as the code has it. For every sequence \<open>A\<close> of integer cent prices (0 to 100) of
  length at least 10 that is not constant (two of its elements differ), the correlation of
  \<open>A\<close> with itself is within \<open>10\<^sup>-\<^sup>9\<close> of 1; and for every sequence shorter than 10 the
  correlation with itself is null. On cent prices the sums of squared deviations are of
  ordinary magnitude, so that their product neither overflows nor underflows in the
  program's arithmetic.
\<close>

theorem pearson_self:
  "(10 \<le> length A \<and> (\<forall>a\<in>set A. cent_price a) \<and> x \<in> set A \<and> y \<in> set A \<and> x \<noteq> y \<longrightarrow>
      (\<exists>r. pearsonCorrelation A A = Some r \<and> \<bar>r - 1\<bar> \<le> 1 / 10 ^ 9))
   \<and> (length B < 10 \<longrightarrow> pearsonCorrelation B B = None)"
proof (intro conjI impI)
  assume h: "10 \<le> length A \<and> (\<forall>a\<in>set A. cent_price a) \<and> x \<in> set A \<and> y \<in> set A \<and> x \<noteq> y"
  define dA where "dA = (\<Sum>x\<leftarrow>A. (x - mean A) * (x - mean A))"
  have "\<not> (\<forall>v\<in>set A. v = mean A)"
    using h by metis
  then have "dA \<noteq> 0"
    by (simp add: dA_def squared_deviations_zero_iff)
  moreover have "0 \<le> dA"
    unfolding dA_def by (rule sum_list_nonneg) auto
  ultimately have pos: "0 < dA" by simp
  have num: "(\<Sum>k = 0..<length A. (A ! k - mean A) * (A ! k - mean A)) = dA"
    using sum_over_indices [of "\<lambda>x. (x - mean A) * (x - mean A)" A] by (simp add: dA_def)
  have sq: "sqrt (dA * dA) = dA"
    using pos by simp
  from pearson_unfold [of A A] h have "pearsonCorrelation A A = Some 1"
    using pos by (simp add: num sq dA_def [symmetric])
  then show "\<exists>r. pearsonCorrelation A A = Some r \<and> \<bar>r - 1\<bar> \<le> 1 / 10 ^ 9"
    by simp
next
  assume "length B < 10"
  then show "pearsonCorrelation B B = None"
    by (intro pearson_short_overlap) simp
qed

theorem pearson_self_witness:
  "(\<exists>r. pearsonCorrelation [40, 41, 45, 47, 52, 50, 49, 60, 61, 62]
            [40, 41, 45, 47, 52, 50, 49, 60, 61, 62] = Some r \<and> \<bar>r - 1\<bar> \<le> 1 / 10 ^ 9)
   \<and> pearsonCorrelation [40, 41, 45, 47, 52, 50, 49, 60, 61] [40, 41, 45, 47, 52, 50, 49, 60, 61]
       = None"
proof -
  let ?A = "[40, 41, 45, 47, 52, 50, 49, 60, 61, 62 :: real]"
  let ?B = "[40, 41, 45, 47, 52, 50, 49, 60, 61 :: real]"
  have a: "10 \<le> length ?A \<and> (\<forall>a\<in>set ?A. cent_price a) \<and> 40 \<in> set ?A \<and> 41 \<in> set ?A
           \<and> (40 :: real) \<noteq> 41"
    by (simp add: cent_price_def)
  have b: "length ?B < 10" by simp
  from pearson_self [of ?A 40 41 ?B] a b show ?thesis by blast
qed

section \<open>Properties of the series normaliser\<close>

lemma fold_min_Min: "fold min ps p = Min (set (p # ps))" for p :: real
  by (simp only: Min.set_eq_fold)

lemma fold_max_Max: "fold max ps p = Max (set (p # ps))" for p :: real
  by (simp only: Max.set_eq_fold)

lemma normalizeSeries_bounds:
  assumes "v \<in> set (normalizeSeries P)"
  shows "0 \<le> v \<and> v \<le> 100"
proof (cases P)
  case Nil
  with assms show ?thesis by simp
next
  case (Cons p ps)
  define mn where "mn = fold min ps p"
  define mx where "mx = fold max ps p"
  have lo: "mn \<le> q" and hi: "q \<le> mx" if "q \<in> set (p # ps)" for q
    using that by (simp_all add: mn_def mx_def fold_min_Min fold_max_Max del: set_simps)
  have "mn \<le> mx" using lo [of p] hi [of p] by simp
  show ?thesis
  proof (cases "mx - mn = 0")
    case True
    with assms Cons show ?thesis
      by (auto simp: Let_def mn_def mx_def)
  next
    case False
    with \<open>mn \<le> mx\<close> have pos: "0 < mx - mn" by simp
    from assms Cons False obtain q where q: "q \<in> set (p # ps)" and v: "v = ((q - mn) / (mx - mn)) * 100"
      by (auto simp: Let_def mn_def mx_def)
    define r where "r = (q - mn) / (mx - mn)"
    from lo [OF q] hi [OF q] pos have "0 \<le> r" "r \<le> 1"
      by (simp_all add: r_def)
    moreover have "v = r * 100" by (simp only: v r_def)
    ultimately show ?thesis by simp
  qed
qed

lemma normalizeSeries_constant:
  assumes "Q \<noteq> []" and "\<forall>q\<in>set Q. q = c"
  shows "normalizeSeries Q = replicate (length Q) 50"
proof -
  from assms(1) obtain p ps where Q: "Q = p # ps" by (cases Q) auto
  have "Min (set (p # ps)) = c"
    using assms(2) unfolding Q by (intro Min_eqI) auto
  moreover have "Max (set (p # ps)) = c"
    using assms(2) unfolding Q by (intro Max_eqI) auto
  ultimately have "fold max ps p - fold min ps p = 0"
    by (simp add: fold_min_Min fold_max_Max del: set_simps)
  then show ?thesis
    by (simp add: Q Let_def map_replicate_const)
qed

text \<open>
  C5. Every value of \<^verbatim>\<open>normalizeSeries(P)\<close> lies between 0 and 100, and the output is as
  long as the input; the empty input gives the empty output; and when all values of a
  non-empty input are equal, every output value is 50.
\<close>

theorem normalizeSeries_range:
  "(\<forall>v\<in>set (normalizeSeries P). 0 \<le> v \<and> v \<le> 100)
   \<and> length (normalizeSeries P) = length P
   \<and> normalizeSeries [] = []
   \<and> (Q \<noteq> [] \<and> (\<forall>q\<in>set Q. q = c) \<longrightarrow> normalizeSeries Q = replicate (length Q) 50)"
proof -
  have "length (normalizeSeries P) = length P"
    by (cases P) (simp_all add: Let_def)
  then show ?thesis
    using normalizeSeries_bounds [of _ P] normalizeSeries_constant [of Q c] by auto
qed

theorem normalizeSeries_range_witness:
  "list_all (\<lambda>v. 0 \<le> v \<and> v \<le> 100) (normalizeSeries [30, 10, 20, 45])
   \<and> normalizeSeries [7, 7, 7] = [50, 50, 50]"
proof -
  have c: "[7, 7, 7] \<noteq> [] \<and> (\<forall>q\<in>set [7, 7, 7 :: real]. q = 7)" by simp
  from normalizeSeries_range [of "[30, 10, 20, 45]" "[7, 7, 7]" 7] c
  show ?thesis by (simp add: list_all_iff numeral_3_eq_3)
qed

section \<open>Properties of the relatedness scorer\<close>

lemma keywordSimilarity_nonneg: "0 \<le> keywordSimilarity kwA kwB"
  by (simp add: keywordSimilarity_def Let_def)

lemma price_term_nonneg:
  assumes "price_in_range target" and "price_in_range candidate"
    and "last_price target = Some pT" and "last_price candidate = Some pC"
  shows "0 \<le> (1 - \<bar>pT - pC\<bar> / 100) * (1 / 10)"
proof -
  from assms have "0 \<le> pT" "pT \<le> 100" "0 \<le> pC" "pC \<le> 100"
    by (simp_all add: price_in_range_def)
  then have "\<bar>pT - pC\<bar> \<le> 100" by simp
  then show ?thesis by simp
qed

lemma score_lower_bound:
  assumes "price_in_range target" and "price_in_range candidate"
  shows "(if same_event target candidate then 8 / 10 else 0)
           \<le> score (computeRelatedness target candidate)"
proof -
  define k where "k = keywordSimilarity (market_keywords target) (market_keywords candidate)"
  have k: "0 \<le> k" unfolding k_def by (rule keywordSimilarity_nonneg)
  then have k6: "0 \<le> k * (6 / 10)" by simp
  show ?thesis
  proof (cases "last_price target")
    case None
    then show ?thesis using k6
      by (simp add: computeRelatedness_def Let_def k_def [symmetric])
  next
    case (Some pT)
    note pT = this
    show ?thesis
    proof (cases "last_price candidate")
      case None
      then show ?thesis using k6
        by (simp add: computeRelatedness_def Let_def k_def [symmetric] pT)
    next
      case (Some pC)
      from price_term_nonneg [OF assms pT Some]
      have "0 \<le> (1 - \<bar>pT - pC\<bar> / 100) * (1 / 10)" .
      then show ?thesis using k6
        by (simp add: computeRelatedness_def Let_def k_def [symmetric] pT Some)
    qed
  qed
qed

lemma reason_same_event:
  assumes "same_event target candidate"
  shows "reason (computeRelatedness target candidate) = ''SAME EVENT''"
  using assms by (simp add: computeRelatedness_def Let_def)

text \<open>
  C6. When the target's \<^verbatim>\<open>event_ticker\<close> is present, not empty, and equal to the
  candidate's, the reason is \<^verbatim>\<open>SAME EVENT\<close>, whatever the titles and so whatever the keyword
  similarity; and for markets of the data model, whose last price is between 0 and 100 when
  it is known, the score is at least 0.8.
\<close>

theorem same_event_relatedness:
  "event_ticker target = Some t \<and> t \<noteq> [] \<and> event_ticker candidate = Some t \<longrightarrow>
     reason (computeRelatedness target candidate) = ''SAME EVENT''
     \<and> (price_in_range target \<and> price_in_range candidate \<longrightarrow>
          8 / 10 \<le> score (computeRelatedness target candidate))"
proof (intro impI conjI)
  assume h: "event_ticker target = Some t \<and> t \<noteq> [] \<and> event_ticker candidate = Some t"
  then have se: "same_event target candidate" by (simp add: same_event_def)
  then show "reason (computeRelatedness target candidate) = ''SAME EVENT''"
    by (rule reason_same_event)
  assume "price_in_range target \<and> price_in_range candidate"
  then show "8 / 10 \<le> score (computeRelatedness target candidate)"
    using score_lower_bound [of target candidate] se by simp
qed

theorem same_event_relatedness_witness:
  "reason (computeRelatedness fed_march fed_june) = ''SAME EVENT''
   \<and> 8 / 10 \<le> score (computeRelatedness fed_march fed_june)
   \<and> keywordSimilarity (market_keywords fed_march) (market_keywords fed_june) = 2 / 3"
proof -
  have k: "keywordSimilarity (market_keywords fed_march) (market_keywords fed_june) = 2 / 3"
    by code_simp
  have h: "event_ticker fed_march = Some ''FED-26'' \<and> ''FED-26'' \<noteq> [] \<and> event_ticker fed_june = Some ''FED-26''"
    by (simp add: fed_march_def fed_june_def)
  have r: "price_in_range fed_march \<and> price_in_range fed_june"
    by (simp add: price_in_range_def fed_march_def fed_june_def)
  from same_event_relatedness [of fed_march "''FED-26''" fed_june] h r k
  show ?thesis by simp
qed

text \<open>
  C7. For every pair of markets whose last prices, when known, are between 0 and 100 (the
  integers of that range among them), the score is not negative.
\<close>

theorem score_nonnegative:
  assumes "price_in_range target" and "price_in_range candidate"
  shows "0 \<le> score (computeRelatedness target candidate)"
proof -
  have "(0::real) \<le> (if same_event target candidate then 8 / 10 else 0)" by simp
  also have "\<dots> \<le> score (computeRelatedness target candidate)"
    using assms by (rule score_lower_bound)
  finally show ?thesis .
qed

theorem score_nonnegative_witness:
  "0 \<le> score (computeRelatedness (market_at (Some 0)) (market_at (Some 100)))
   \<and> score (computeRelatedness (market_at (Some 0)) (market_at (Some 100))) = 0"
proof -
  have a: "price_in_range (market_at (Some 0))" and b: "price_in_range (market_at (Some 100))"
    by (simp_all add: price_in_range_def market_at_def)
  have "score (computeRelatedness (market_at (Some 0)) (market_at (Some 100))) = 0"
    by code_simp
  with score_nonnegative [OF a b] show ?thesis by simp
qed

end
